theory Spec2Isabelle
  imports Main "HOL-Library.Sublist"
begin

section \<open>The reload plugin of \<open>src/index.ts\<close>\<close>

text \<open>
  The plugin is glue between four collaborators of the development server: the path
  library (\<open>resolve\<close>, \<open>relative\<close>, \<open>normalizePath\<close>), the glob matcher \<open>picomatch\<close>,
  the colour helpers of the logger line and the process (\<open>process.cwd()\<close>,
  \<open>process.env.VITEST\<close>). None of them is code of the plugin, so the embedding takes
  them as fields of one record; the hooks of the plugin are functions of that record.
  A JavaScript string is a \<open>string\<close> (a list of characters), \<open>undefined\<close> is \<open>None\<close>.
\<close>

subsection \<open>Strings\<close>

text \<open>\<open>s.includes(needle)\<close>: the needle occurs in \<open>s\<close> as a contiguous run.\<close>

definition includes_str :: "string \<Rightarrow> string \<Rightarrow> bool" where
  "includes_str s needle = sublist needle s"

text \<open>The class \<open>\s\<close> of a regular expression, on the characters a \<open>char\<close> can hold.\<close>

definition is_space :: "char \<Rightarrow> bool" where
  "is_space c = (c \<in> set [CHR 0x09, CHR 0x0A, CHR 0x0B, CHR 0x0C, CHR 0x0D, CHR 0x20, CHR 0xA0])"

text \<open>
  \<open>s.replace(/(\n|\s\s)+/gm, "")\<close>. At a position the group takes a newline if there is
  one, else two whitespace characters if there are two, and the match goes on greedily
  from where the group stopped; where the group takes nothing the character is kept.
  Every match is replaced by the empty string, so the result is what is kept.
\<close>

fun replace_ws :: "string \<Rightarrow> string" where
  "replace_ws [] = []"
| "replace_ws [c] = (if c = CHR 0x0A then [] else [c])"
| "replace_ws (c # d # cs) =
     (if c = CHR 0x0A then replace_ws (d # cs)
      else if is_space c \<and> is_space d then replace_ws cs
      else c # replace_ws (d # cs))"

subsection \<open>Data\<close>

text \<open>The interface \<open>Config\<close>: every key is optional.\<close>

record config =
  always :: "bool option"
  delay :: "int option"
  log :: "bool option"
  root :: "string option"
  turbo :: "bool option"

text \<open>
  The constants that \<open>configureServer\<close> destructures from the configuration,
  \<open>const { root = process.cwd(), log = true, always = true, delay = 0, turbo = false }\<close>,
  and that \<open>checkReload\<close> closes over.
\<close>

record settings =
  root :: string
  log :: bool
  always :: bool
  delay :: int
  turbo :: bool

text \<open>The argument \<open>paths: string | string[]\<close>.\<close>

datatype paths = Single string | Array "string list"

text \<open>The second argument of the hook \<open>transform\<close>, \<open>options?: { ssr?: boolean }\<close>.\<close>

record transform_options =
  ssr :: "bool option"

text \<open>
  The two messages the plugin hands to \<open>ws.send\<close>: \<open>{ type: 'full-reload', path }\<close> and
  \<open>{ type: 'custom', event }\<close>.
\<close>

datatype message = FullReload string | Custom string

text \<open>The options of \<open>logger.info\<close>.\<close>

record log_options =
  clear :: bool
  timestamp :: bool

text \<open>
  What a handler does, in the order it does it. \<open>SetTimeout e d\<close> is
  \<open>setTimeout(() => e, d)\<close>: the effect \<open>e\<close> is not performed by the handler but handed
  to the timer with the delay \<open>d\<close>.
\<close>

datatype effect =
    WsSend message
  | SetTimeout effect int
  | LoggerInfo string log_options

text \<open>The collaborators.\<close>

record host =
  cwd :: string
  VITEST :: "string option"
  resolve :: "string \<Rightarrow> string \<Rightarrow> string"
  relative :: "string \<Rightarrow> string \<Rightarrow> string"
  normalizePath :: "string \<Rightarrow> string"
  picomatch :: "string list \<Rightarrow> string \<Rightarrow> bool"
  green :: "string \<Rightarrow> string"
  dim :: "string \<Rightarrow> string"

text \<open>
  Modelled from the spec: the matcher \<open>picomatch\<close> is a dependency, its code is not in
  the sources of the plugin, and the plugin calls it through the host. The spec
  describes the predicate it builds from a list of patterns: given a candidate path,
  true iff the path satisfies at least one pattern. \<open>g\<close> is what one pattern matches.
\<close>

definition picomatch_array :: "(string \<Rightarrow> string \<Rightarrow> bool) \<Rightarrow> string list \<Rightarrow> string \<Rightarrow> bool" where
  "picomatch_array g patterns p = list_ex (\<lambda>pattern. g pattern p) patterns"

text \<open>The truth value JavaScript gives \<open>process.env.VITEST\<close>: a non-empty string.\<close>

definition truthy :: "string option \<Rightarrow> bool" where
  "truthy v = (case v of None \<Rightarrow> False | Some s \<Rightarrow> s \<noteq> [])"

subsection \<open>\<open>normalizePaths\<close>\<close>

definition normalizePaths :: "host \<Rightarrow> string \<Rightarrow> paths \<Rightarrow> string list" where
  "normalizePaths h root' path =
     map (normalizePath h)
       (map (\<lambda>path. resolve h root' path) (case path of Array ps \<Rightarrow> ps | Single p \<Rightarrow> [p]))"

subsection \<open>The hook \<open>transform\<close>\<close>

text \<open>The template literal of \<open>metaHotFooter\<close>, before the replacement.\<close>

definition footer_template :: string where
  "footer_template =
     ''\<newline>'' @ ''        if (import.meta.hot) {'' @
     ''\<newline>'' @ ''          import.meta.hot.on(\"turbo-refresh\", (data) => {'' @
     ''\<newline>'' @ ''            console.log(\"Run <turbo-stream action=refresh> via vite-plugin-full-reload\");'' @
     ''\<newline>'' @ ''            Turbo.renderStreamMessage('' @ [CHR 0x27] @
                  ''<turbo-stream action=\"refresh\"></turbo-stream>'' @ [CHR 0x27] @ '');'' @
     ''\<newline>'' @ ''          })'' @
     ''\<newline>'' @ ''        }'' @
     ''\<newline>'' @ ''      ''"

definition metaHotFooter :: string where
  "metaHotFooter = replace_ws footer_template"

text \<open>
  The hook returns \<open>undefined\<close> (the module is left as it is) or the new content.
  \<open>options?.ssr\<close> is truthy only for \<open>{ ssr: true }\<close>, \<open>config.turbo\<close> only for \<open>true\<close>.
\<close>

definition transform :: "host \<Rightarrow> config \<Rightarrow> string \<Rightarrow> string \<Rightarrow> transform_options option \<Rightarrow> string option" where
  "transform h cfg code ident options =
     (if (case options of None \<Rightarrow> False | Some opts \<Rightarrow> ssr opts = Some True) \<and> \<not> truthy (VITEST h)
      then None
      else if config.turbo cfg = Some True \<and> includes_str ident ''hotwired_turbo-rails.js''
      then Some (code @ ''\<newline>'' @ metaHotFooter)
      else None)"

subsection \<open>The hook \<open>configureServer\<close>\<close>

definition destructure :: "host \<Rightarrow> config \<Rightarrow> settings" where
  "destructure h cfg =
     \<lparr> root = (case config.root cfg of None \<Rightarrow> cwd h | Some r \<Rightarrow> r),
       log = (case config.log cfg of None \<Rightarrow> True | Some b \<Rightarrow> b),
       always = (case config.always cfg of None \<Rightarrow> True | Some b \<Rightarrow> b),
       delay = (case config.delay cfg of None \<Rightarrow> 0 | Some d \<Rightarrow> d),
       turbo = (case config.turbo cfg of None \<Rightarrow> False | Some b \<Rightarrow> b) \<rparr>"

text \<open>
  \<open>checkReload\<close> is a closure of \<open>configureServer\<close>; what it closes over are its first
  three arguments here: the host, the predicate \<open>shouldReload\<close> and the destructured
  constants. It returns the effects it performs, in order.
\<close>

definition checkReload :: "host \<Rightarrow> (string \<Rightarrow> bool) \<Rightarrow> settings \<Rightarrow> string \<Rightarrow> effect list" where
  "checkReload h should s path =
     (if should path then
        (if turbo s
         then [SetTimeout (WsSend (Custom ''turbo-refresh'')) (delay s)]
         else [SetTimeout (WsSend (FullReload (if always s then ''*'' else path))) (delay s)])
        @ (if log s
           then [LoggerInfo (green h ''full reload'' @ '' '' @ dim h (relative h (root s) path))
                   \<lparr> clear = True, timestamp = True \<rparr>]
           else [])
      else [])"

text \<open>
  What \<open>configureServer\<close> leaves in the watcher: the files given to \<open>watcher.add\<close> and the
  handlers given to \<open>watcher.on\<close>, each under the name of its event.
\<close>

record watcher =
  added :: "string list"
  listeners :: "(string \<times> (string \<Rightarrow> effect list)) list"

text \<open>The constants \<open>files\<close> and \<open>shouldReload\<close> of \<open>configureServer\<close>.\<close>

definition files :: "host \<Rightarrow> paths \<Rightarrow> config \<Rightarrow> string list" where
  "files h paths cfg = normalizePaths h (root (destructure h cfg)) paths"

definition shouldReload :: "host \<Rightarrow> paths \<Rightarrow> config \<Rightarrow> string \<Rightarrow> bool" where
  "shouldReload h paths cfg = picomatch h (files h paths cfg)"

definition configureServer :: "host \<Rightarrow> paths \<Rightarrow> config \<Rightarrow> watcher" where
  "configureServer h paths cfg =
     (let check = checkReload h (shouldReload h paths cfg) (destructure h cfg)
      in \<lparr> added = files h paths cfg, listeners = [(''add'', check), (''change'', check)] \<rparr>)"

text \<open>
  The watcher emitting the event \<open>name\<close> for a file: every listener registered under
  that name runs on the path, in the order of registration.
\<close>

definition emit :: "watcher \<Rightarrow> string \<Rightarrow> string \<Rightarrow> effect list" where
  "emit w name p = concat (map (\<lambda>l. if fst l = name then snd l p else []) (listeners w))"


text \<open>The messages a list of effects hands to the timer, and the lines it logs.\<close>

fun scheduled :: "effect list \<Rightarrow> (message \<times> int) list" where
  "scheduled [] = []"
| "scheduled (SetTimeout (WsSend m) d # es) = (m, d) # scheduled es"
| "scheduled (e # es) = scheduled es"

fun sent_now :: "effect list \<Rightarrow> message list" where
  "sent_now [] = []"
| "sent_now (WsSend m # es) = m # sent_now es"
| "sent_now (e # es) = sent_now es"


text \<open>Every message an effect sends, now or when a timer fires.\<close>

fun messages_of :: "effect \<Rightarrow> message list" where
  "messages_of (WsSend m) = [m]"
| "messages_of (SetTimeout e d) = messages_of e"
| "messages_of (LoggerInfo line opts) = []"

subsection \<open>A host to run the hooks on\<close>

text \<open>
  A stand-in for the collaborators: paths are joined with a slash, a pattern matches the
  path equal to it, colours are off.
\<close>

definition plain_host :: host where
  "plain_host =
     \<lparr> cwd = ''/app'', VITEST = None,
       resolve = (\<lambda>r p. r @ ''/'' @ p),
       relative = (\<lambda>r p. drop (length r + 1) p),
       normalizePath = (\<lambda>p. p),
       picomatch = picomatch_array (\<lambda>pattern p. pattern = p),
       green = (\<lambda>s. s), dim = (\<lambda>s. s) \<rparr>"

text \<open>The default of the parameter \<open>config\<close>, \<open>{}\<close>.\<close>

definition empty_config :: config where
  "empty_config =
     \<lparr> config.always = None, config.delay = None, config.log = None,
       config.root = None, config.turbo = None \<rparr>"

section \<open>Properties\<close>

lemma metaHotFooter_value:
  "metaHotFooter =
     ''if (import.meta.hot) {import.meta.hot.on(\"turbo-refresh\", (data) => {'' @
     ''console.log(\"Run <turbo-stream action=refresh> via vite-plugin-full-reload\");'' @
     ''Turbo.renderStreamMessage('' @ [CHR 0x27] @
     ''<turbo-stream action=\"refresh\"></turbo-stream>'' @ [CHR 0x27] @ '');})}''"
  by (simp add: metaHotFooter_def footer_template_def is_space_def)

subsection \<open>What the watcher runs on an event\<close>

text \<open>
  The same handler is registered for \<open>add\<close> and for \<open>change\<close>, and for no other event.
\<close>

lemma emit_add_change:
  "name = ''add'' \<or> name = ''change'' \<Longrightarrow>
     emit (configureServer h paths cfg) name p =
       checkReload h (shouldReload h paths cfg) (destructure h cfg) p"
  by (auto simp: emit_def configureServer_def Let_def)

lemma emit_other:
  "name \<noteq> ''add'' \<Longrightarrow> name \<noteq> ''change'' \<Longrightarrow> emit (configureServer h paths cfg) name p = []"
  by (simp add: emit_def configureServer_def Let_def)

lemma destructure_defaults:
  "destructure h empty_config =
     \<lparr> root = cwd h, log = True, always = True, delay = 0, turbo = False \<rparr>"
  by (simp add: destructure_def empty_config_def)

text \<open>The definitions that evaluate the bound predicate on the stand-in host.\<close>

lemmas accepts_defs =
  shouldReload_def files_def normalizePaths_def destructure_def plain_host_def
  picomatch_array_def empty_config_def

subsection \<open>The message of a triggered event\<close>

text \<open>
  C1. An \<open>add\<close> or \<open>change\<close> event whose path the bound predicate accepts, with \<open>turbo\<close>
  off: the handler hands exactly one message to the timer, a full-reload message, and
  sends nothing itself. The path of the message is \<open>*\<close> when \<open>always\<close> is true (as it is
  by default) and the path of the event when \<open>always\<close> is false.
\<close>

theorem full_reload_message:
  assumes "name = ''add'' \<or> name = ''change''"
    and "shouldReload h paths cfg p"
    and "\<not> turbo (destructure h cfg)"
  shows "scheduled (emit (configureServer h paths cfg) name p) =
           [(FullReload (if always (destructure h cfg) then ''*'' else p), delay (destructure h cfg))]
         \<and> sent_now (emit (configureServer h paths cfg) name p) = []
         \<and> always (destructure h cfg) = (config.always cfg \<noteq> Some False)"
  using assms
  by (auto simp: emit_add_change checkReload_def destructure_def split: option.splits)

theorem full_reload_message_witness:
  "scheduled (emit (configureServer plain_host (Single ''templates/index.html'')
       (empty_config\<lparr>config.root := Some ''/app''\<rparr>)) ''add'' ''/app/templates/index.html'')
     = [(FullReload ''*'', 0)]
   \<and> scheduled (emit (configureServer plain_host (Single ''templates/index.html'')
       (empty_config\<lparr>config.root := Some ''/app'', config.always := Some False\<rparr>))
         ''change'' ''/app/templates/index.html'')
     = [(FullReload ''/app/templates/index.html'', 0)]"
proof -
  let ?c = "empty_config\<lparr>config.root := Some ''/app''\<rparr>"
  let ?d = "empty_config\<lparr>config.root := Some ''/app'', config.always := Some False\<rparr>"
  let ?p = "''/app/templates/index.html''"
  have a: "shouldReload plain_host (Single ''templates/index.html'') ?c ?p"
    by (simp add: accepts_defs)
  have b: "shouldReload plain_host (Single ''templates/index.html'') ?d ?p"
    by (simp add: accepts_defs)
  have t: "\<not> turbo (destructure plain_host ?c)" "\<not> turbo (destructure plain_host ?d)"
    by (simp_all add: destructure_def empty_config_def)
  have n: "''add'' = ''add'' \<or> ''add'' = ''change''" "''change'' = ''add'' \<or> ''change'' = ''change''"
    by simp_all
  from full_reload_message [OF n(1) a t(1)] full_reload_message [OF n(2) b t(2)]
  show ?thesis
    by (simp add: destructure_def empty_config_def)
qed

text \<open>
  C2. A triggered event with \<open>turbo\<close> on: the one message handed to the timer is the
  custom message \<open>turbo-refresh\<close>, whatever \<open>always\<close> and the path are, and no other
  message is sent, at once or by a timer; so no full-reload message is.
\<close>

theorem turbo_refresh_message:
  assumes "name = ''add'' \<or> name = ''change''"
    and "shouldReload h paths cfg p"
    and "turbo (destructure h cfg)"
  shows "scheduled (emit (configureServer h paths cfg) name p) =
           [(Custom ''turbo-refresh'', delay (destructure h cfg))]
         \<and> concat (map messages_of (emit (configureServer h paths cfg) name p)) =
           [Custom ''turbo-refresh'']
         \<and> turbo (destructure h cfg) = (config.turbo cfg = Some True)"
  using assms
  by (auto simp: emit_add_change checkReload_def destructure_def split: option.splits)

theorem turbo_refresh_message_witness:
  "concat (map messages_of (emit (configureServer plain_host (Single ''app/views/a.erb'')
       (empty_config\<lparr>config.root := Some ''/app'', config.turbo := Some True,
          config.always := Some False\<rparr>)) ''change'' ''/app/app/views/a.erb''))
     = [Custom ''turbo-refresh'']"
proof -
  let ?c = "empty_config\<lparr>config.root := Some ''/app'', config.turbo := Some True,
              config.always := Some False\<rparr>"
  have a: "shouldReload plain_host (Single ''app/views/a.erb'') ?c ''/app/app/views/a.erb''"
    by (simp add: accepts_defs)
  have t: "turbo (destructure plain_host ?c)"
    by (simp add: destructure_def empty_config_def)
  have n: "''change'' = ''add'' \<or> ''change'' = ''change''"
    by simp
  from turbo_refresh_message [OF n a t] show ?thesis
    by simp
qed

text \<open>
  C4. An event whose path the bound predicate rejects: the handler does nothing. No
  message is handed to the timer or sent, no line is logged, and nothing is raised (the
  handler has no failing branch). The path is arbitrary.
\<close>

theorem rejected_path_no_effect:
  assumes "\<not> shouldReload h paths cfg p"
  shows "emit (configureServer h paths cfg) name p = []"
  using assms
  by (simp add: emit_def configureServer_def Let_def checkReload_def)

theorem rejected_path_no_effect_witness:
  "emit (configureServer plain_host (Array [''templates/index.html''])
      (empty_config\<lparr>config.root := Some ''/app''\<rparr>)) ''change'' ''/app/src/main.js'' = []"
proof -
  have "\<not> shouldReload plain_host (Array [''templates/index.html''])
          (empty_config\<lparr>config.root := Some ''/app''\<rparr>) ''/app/src/main.js''"
    by (simp add: accepts_defs)
  from rejected_path_no_effect [OF this] show ?thesis .
qed

subsection \<open>The normalized patterns\<close>



subsection \<open>The timer and the log line\<close>





subsection \<open>The hook \<open>transform\<close>\<close>

lemma includes_str_iff:
  "includes_str s needle \<longleftrightarrow> (\<exists>before after. s = before @ needle @ after)"
  by (simp add: includes_str_def sublist_def)

text \<open>
  The test \<open>!process.env.VITEST\<close> takes the empty string for an unset flag: in an SSR
  context the hook is skipped then, too.
\<close>

lemma transform_ssr_empty_flag:
  "transform (h\<lparr>VITEST := Some []\<rparr>) cfg code ident (Some \<lparr> ssr = Some True \<rparr>) = None"
  by (simp add: transform_def truthy_def)

text \<open>
  C7. The hook called in an SSR context, that is with options whose \<open>ssr\<close> is true.
  When \<open>process.env.VITEST\<close> is not set (or is the empty string, which JavaScript takes
  for false as well) the hook returns \<open>undefined\<close>: the module is left as it is. When
  the flag is set to a non-empty string the hook returns what it returns outside an SSR
  context, without options or with options whose \<open>ssr\<close> is not true, whatever the flag is
  there.
\<close>

theorem transform_ssr:
  assumes "options = Some opts" and "ssr opts = Some True"
  shows "(\<not> truthy (VITEST h) \<longrightarrow> transform h cfg code ident options = None)
         \<and> (truthy (VITEST h) \<longrightarrow>
              transform h cfg code ident options = transform (h\<lparr>VITEST := v\<rparr>) cfg code ident None
              \<and> (\<forall>opts'. ssr opts' \<noteq> Some True \<longrightarrow>
                    transform h cfg code ident options =
                      transform (h\<lparr>VITEST := v\<rparr>) cfg code ident (Some opts')))"
  using assms
  by (simp add: transform_def)

theorem transform_ssr_witness:
  "transform plain_host (empty_config\<lparr>config.turbo := Some True\<rparr>) ''export {}''
      ''/deps/@hotwired_turbo-rails.js'' (Some \<lparr> ssr = Some True \<rparr>) = None
   \<and> transform (plain_host\<lparr>VITEST := Some ''true''\<rparr>) (empty_config\<lparr>config.turbo := Some True\<rparr>)
      ''export {}'' ''/deps/@hotwired_turbo-rails.js'' (Some \<lparr> ssr = Some True \<rparr>)
     = Some (''export {}'' @ ''\<newline>'' @ metaHotFooter)"
proof -
  let ?c = "empty_config\<lparr>config.turbo := Some True\<rparr>"
  let ?o = "\<lparr> ssr = Some True \<rparr>"
  have off: "\<not> truthy (VITEST plain_host)"
    by (simp add: truthy_def plain_host_def)
  have on: "truthy (VITEST (plain_host\<lparr>VITEST := Some ''true''\<rparr>))"
    by (simp add: truthy_def)
  have s: "ssr ?o = Some True"
    by simp
  have i: "includes_str ''/deps/@hotwired_turbo-rails.js'' ''hotwired_turbo-rails.js''"
    by (simp add: includes_str_def sublist_code(3))
  from transform_ssr [OF refl s, of plain_host ?c "''export {}''" "''/deps/@hotwired_turbo-rails.js''"] off
  have "transform plain_host ?c ''export {}'' ''/deps/@hotwired_turbo-rails.js'' (Some ?o) = None"
    by blast
  moreover
  from transform_ssr [OF refl s, of "plain_host\<lparr>VITEST := Some ''true''\<rparr>" ?c
      "''export {}''" "''/deps/@hotwired_turbo-rails.js''" None] on
  have "transform (plain_host\<lparr>VITEST := Some ''true''\<rparr>) ?c ''export {}''
          ''/deps/@hotwired_turbo-rails.js'' (Some ?o)
        = transform (plain_host\<lparr>VITEST := None\<rparr>) ?c ''export {}''
          ''/deps/@hotwired_turbo-rails.js'' None"
    by simp
  moreover
  have "transform (plain_host\<lparr>VITEST := None\<rparr>) ?c ''export {}''
          ''/deps/@hotwired_turbo-rails.js'' None
        = Some (''export {}'' @ ''\<newline>'' @ metaHotFooter)"
    using i by (simp add: transform_def empty_config_def)
  ultimately show ?thesis
    by simp
qed

text \<open>
  C8. A module the hook goes on to process (the SSR test of C7 does not stop it). When
  \<open>config.turbo\<close> is true and the id of the module contains \<open>hotwired_turbo-rails.js\<close>,
  the hook returns the code of the module, a newline and \<open>metaHotFooter\<close>: the code is a
  prefix of the result and what follows it is the same for every module. In every other
  case the hook returns \<open>undefined\<close>.
\<close>

theorem transform_appends:
  assumes "\<not> ((case options of None \<Rightarrow> False | Some opts \<Rightarrow> ssr opts = Some True)
               \<and> \<not> truthy (VITEST h))"
  shows "(config.turbo cfg = Some True \<and> includes_str ident ''hotwired_turbo-rails.js'' \<longrightarrow>
            transform h cfg code ident options = Some (code @ ''\<newline>'' @ metaHotFooter)
            \<and> prefix code (the (transform h cfg code ident options)))
         \<and> (\<not> (config.turbo cfg = Some True \<and> includes_str ident ''hotwired_turbo-rails.js'') \<longrightarrow>
            transform h cfg code ident options = None)"
  using assms
  by (auto simp: transform_def)

theorem transform_appends_witness:
  "transform plain_host (empty_config\<lparr>config.turbo := Some True\<rparr>) ''export {}''
      ''/deps/@hotwired_turbo-rails.js?v=1'' None
     = Some (''export {}'' @ ''\<newline>'' @ metaHotFooter)
   \<and> transform plain_host (empty_config\<lparr>config.turbo := Some True\<rparr>) ''export {}''
      ''/src/main.js'' None = None
   \<and> transform plain_host empty_config ''export {}''
      ''/deps/@hotwired_turbo-rails.js?v=1'' None = None"
proof -
  let ?c = "empty_config\<lparr>config.turbo := Some True\<rparr>"
  have g: "\<not> ((case None of None \<Rightarrow> False | Some opts \<Rightarrow> ssr opts = Some True)
               \<and> \<not> truthy (VITEST plain_host))"
    by simp
  have t: "config.turbo ?c = Some True" "config.turbo empty_config \<noteq> Some True"
    by (simp_all add: empty_config_def)
  have i: "includes_str ''/deps/@hotwired_turbo-rails.js?v=1'' ''hotwired_turbo-rails.js''"
    by (simp add: includes_str_def sublist_code(3))
  have j: "\<not> includes_str ''/src/main.js'' ''hotwired_turbo-rails.js''"
    by (simp add: includes_str_def sublist_code(3))
  from transform_appends [OF g, of ?c "''/deps/@hotwired_turbo-rails.js?v=1''" "''export {}''"]
    transform_appends [OF g, of ?c "''/src/main.js''" "''export {}''"]
    transform_appends [OF g, of empty_config "''/deps/@hotwired_turbo-rails.js?v=1''" "''export {}''"]
    t i j
  show ?thesis
    by blast
qed

subsection \<open>Events one after the other\<close>




subsection \<open>No patterns\<close>

text \<open>
  C10. The patterns are the empty list and the matcher is the one of the spec: the
  normalized patterns are the empty list, the bound predicate rejects every path, and
  no event makes the handler do anything.
\<close>

theorem empty_patterns_never_reload:
  assumes "picomatch h = picomatch_array g"
  shows "files h (Array []) cfg = []
         \<and> added (configureServer h (Array []) cfg) = []
         \<and> (\<forall>p. \<not> shouldReload h (Array []) cfg p)
         \<and> (\<forall>name p. emit (configureServer h (Array []) cfg) name p = [])"
  using assms
  by (simp add: files_def normalizePaths_def shouldReload_def picomatch_array_def
      emit_def configureServer_def Let_def checkReload_def)

theorem empty_patterns_never_reload_witness:
  "\<not> shouldReload plain_host (Array []) empty_config ''/app/templates/index.html''
   \<and> emit (configureServer plain_host (Array []) empty_config) ''add''
       ''/app/templates/index.html'' = []"
proof -
  have "picomatch plain_host = picomatch_array (\<lambda>pattern p. pattern = p)"
    by (simp add: plain_host_def)
  from empty_patterns_never_reload [OF this, of empty_config] show ?thesis
    by blast
qed

end
